theory Spec2Isabelle
  imports Main
begin

section \<open>Errors\<close>

text \<open>
  Every error of the plugin is built with the roadrunner errors library: an error value
  carries an optional operation name, a kind and an optional wrapped error. An error that
  does not come from that library (a broker, JSON or network error) is kept by its text.
\<close>

datatype Kind = Undefined | TimeOut | Disabled | OtherKind string

datatype error =
    Error "string option" Kind "error option"
  | Str string

text \<open>
  \<^verbatim>\<open>errors.E(args...)\<close> fills the fields from its arguments; when the wrapped error is
  itself a library error its kind is pulled up into the new one.
\<close>

definition E :: "string option \<Rightarrow> error option \<Rightarrow> error" where
  "E opn w =
     (case w of
        Some (Error opn' k' w') \<Rightarrow> Error opn k' (Some (Error opn' Undefined w'))
      | Some (Str s) \<Rightarrow> Error opn Undefined (Some (Str s))
      | None \<Rightarrow> Error opn Undefined None)"

text \<open>\<^verbatim>\<open>errors.Is(kind, err)\<close>: the first defined kind along the chain of wrapped errors.\<close>

fun Is :: "Kind \<Rightarrow> error \<Rightarrow> bool" where
  "Is kind (Str s) = False"
| "Is kind (Error opn k w) =
     (if k \<noteq> Undefined then k = kind
      else (case w of Some e \<Rightarrow> Is kind e | None \<Rightarrow> False))"

section \<open>The validator package\<close>

subsection \<open>FetchIP\<close>

text \<open>
  Go strings are byte sequences; \<^typ>\<open>string\<close> is a list of 8-bit characters.
  \<^verbatim>\<open>IndexByte\<close> and \<^verbatim>\<open>LastIndexByte\<close> return \<open>-1\<close> in Go when the byte is absent;
  here that is \<^term>\<open>None\<close>.
\<close>

fun IndexByte :: "string \<Rightarrow> char \<Rightarrow> nat option" where
  "IndexByte [] c = None"
| "IndexByte (x # xs) c = (if x = c then Some 0 else map_option Suc (IndexByte xs c))"

definition LastIndexByte :: "string \<Rightarrow> char \<Rightarrow> nat option" where
  "LastIndexByte s c = map_option (\<lambda>i. length s - 1 - i) (IndexByte (rev s) c)"

definition addrErr :: "string \<Rightarrow> string \<Rightarrow> string \<times> string \<times> error option" where
  "addrErr addr why =
     ('''', '''', Some (Str (if addr = '''' then why else ''address '' @ addr @ '': '' @ why)))"

text \<open>
  \<^verbatim>\<open>net.SplitHostPort\<close> of the Go standard library, which \<^verbatim>\<open>FetchIP\<close> calls. It returns
  host, port and an error; on an error host and port are empty. \<open>j\<close> and \<open>k\<close> are the
  positions from which a stray bracket is looked for.
\<close>

definition SplitHostPort :: "string \<Rightarrow> string \<times> string \<times> error option" where
  "SplitHostPort hostport =
     (case LastIndexByte hostport CHR '':'' of
        None \<Rightarrow> addrErr hostport ''missing port in address''
      | Some i \<Rightarrow>
          (let finish = (\<lambda>host j k.
                 if CHR ''['' \<in> set (drop j hostport)
                 then addrErr hostport ''unexpected '[' in address''
                 else if CHR '']'' \<in> set (drop k hostport)
                 then addrErr hostport ''unexpected ']' in address''
                 else (host, drop (i + 1) hostport, None))
           in if take 1 hostport = ''[''
              then (case IndexByte hostport CHR '']'' of
                      None \<Rightarrow> addrErr hostport ''missing ']' in address''
                    | Some end \<Rightarrow>
                        if end + 1 = length hostport
                        then addrErr hostport ''missing port in address''
                        else if end + 1 = i
                        then finish (drop 1 (take end hostport)) 1 (end + 1)
                        else if hostport ! (end + 1) = CHR '':''
                        then addrErr hostport ''too many colons in address''
                        else addrErr hostport ''missing port in address'')
              else (let host = take i hostport
                    in if CHR '':'' \<in> set host
                       then addrErr hostport ''too many colons in address''
                       else finish host 0 0)))"

text \<open>
  \<^verbatim>\<open>FetchIP\<close>: a pair without a colon is returned as it is; otherwise the host part of
  \<^verbatim>\<open>SplitHostPort\<close>, whose error is dropped.
\<close>

definition FetchIP :: "string \<Rightarrow> string" where
  "FetchIP pair =
     (if CHR '':'' \<notin> set pair then pair
      else (case SplitHostPort pair of (addr, _, _) \<Rightarrow> addr))"

text \<open>A host or a port that holds neither a colon nor a bracket.\<close>

definition plain :: "string \<Rightarrow> bool" where
  "plain s \<longleftrightarrow> CHR '':'' \<notin> set s \<and> CHR ''['' \<notin> set s \<and> CHR '']'' \<notin> set s"

subsection \<open>Requests and their attribute bag\<close>

text \<open>
  The part of \<^verbatim>\<open>*http.Request\<close> the package reads. \<open>URL_String\<close> is the value of
  \<^verbatim>\<open>r.URL.String()\<close>, \<open>TLS\<close> says whether \<^verbatim>\<open>r.TLS\<close> is non-nil, and \<open>attrs\<close> is the
  attribute bag kept in the request's context (\<^term>\<open>None\<close> when no bag was installed).
  A Go map is a partial function; the order in which the runtime visits its keys is not
  part of the map and is supplied wherever a map is traversed.
\<close>

text \<open>
  An attribute value is a boolean or a string (the two kinds the package stores), or a
  value of a Go type that JSON cannot encode, such as a channel, named by its type.
\<close>

datatype attr = AttrBool bool | AttrString string | AttrUnsupported string

record http_request =
  RemoteAddr :: string
  Proto :: string
  Method :: string
  URL_String :: string
  URL_Host :: string
  URL_Path :: string
  URL_RawQuery :: string
  Host :: string
  TLS :: bool
  Header :: "string \<rightharpoonup> string list"
  attrs :: "(string \<rightharpoonup> attr) option"

text \<open>
  Modelled from the spec: package \<^verbatim>\<open>attributes\<close> (\<^verbatim>\<open>Init\<close>, \<^verbatim>\<open>Set\<close>, \<^verbatim>\<open>All\<close>) is not among
  the sources. The spec calls it the arbitrary string-to-value attribute bag of the
  request: \<^verbatim>\<open>Init\<close> installs an empty bag, \<^verbatim>\<open>Set\<close> stores one entry in the bag and fails
  when the request has none, \<^verbatim>\<open>All\<close> is the bag itself (an empty map when there is none).
\<close>

definition attributes_Init :: "http_request \<Rightarrow> http_request" where
  "attributes_Init r = r\<lparr>attrs := Some Map.empty\<rparr>"

definition attributes_Set :: "http_request \<Rightarrow> string \<Rightarrow> attr \<Rightarrow> error + http_request" where
  "attributes_Set r k v =
     (case attrs r of
        None \<Rightarrow> Inl (Str ''unable to find `psr:attributes` context key'')
      | Some bag \<Rightarrow> Inr (r\<lparr>attrs := Some (bag(k \<mapsto> v))\<rparr>))"

definition attributes_All :: "http_request \<Rightarrow> string \<rightharpoonup> attr" where
  "attributes_All r = (case attrs r of None \<Rightarrow> Map.empty | Some bag \<Rightarrow> bag)"

text \<open>
  \<^verbatim>\<open>delete(attributes.All(r), key)\<close>: the bag is a reference, so the entry leaves the
  request's own bag; without a bag the deletion acts on a temporary map.
\<close>

definition delete_All :: "http_request \<Rightarrow> string \<Rightarrow> http_request" where
  "delete_All r k =
     (case attrs r of None \<Rightarrow> r | Some bag \<Rightarrow> r\<lparr>attrs := Some (bag(k := None))\<rparr>)"

definition joinServer :: string where
  "joinServer = ''ws:joinServer''"

definition joinTopics :: string where
  "joinTopics = ''ws:joinTopics''"

record Request =
  req_RemoteAddr :: string
  req_Protocol :: string
  req_Method :: string
  req_URI :: string
  req_Header :: "string \<rightharpoonup> string list"
  req_Cookies :: "string \<rightharpoonup> string"
  req_RawQuery :: string
  req_Parsed :: bool
  req_Attributes :: "string \<rightharpoonup> attr"

text \<open>\<^verbatim>\<open>strings.ReplaceAll(s, c, "")\<close> for a one-byte \<open>c\<close>, and \<^verbatim>\<open>strings.Join\<close>.\<close>

definition ReplaceAll_byte :: "string \<Rightarrow> char \<Rightarrow> string" where
  "ReplaceAll_byte s c = filter (\<lambda>x. x \<noteq> c) s"

fun Join :: "string list \<Rightarrow> string \<Rightarrow> string" where
  "Join [] sep = []"
| "Join [x] sep = x"
| "Join (x # y # ys) sep = x @ sep @ Join (y # ys) sep"

definition URI :: "http_request \<Rightarrow> string" where
  "URI r =
     (let uri = ReplaceAll_byte (ReplaceAll_byte (URL_String r) CHR 0x0A) CHR 0x0D
      in if URL_Host r \<noteq> '''' then uri
         else if TLS r then ''https://'' @ Host r @ uri
         else ''http://'' @ Host r @ uri)"

subsection \<open>JSON encoding of a Request\<close>

text \<open>
  The package marshals with json-iterator under its default configuration, which writes
  the entries of a map in the order the runtime iterates it (map keys are not sorted) and
  escapes HTML characters. \<open>range_map ks m\<close> is the traversal of \<open>m\<close> that visits the keys
  in the order \<open>ks\<close>; \<open>iteration ks m\<close> says that \<open>ks\<close> is an order the runtime may take.
  Maps and slices are taken to be non-nil, as the server and the package make them (a
  nil one is written as \<open>null\<close>). An error of the encoder carries the path of the
  struct field in which it arose.
\<close>

fun range_map :: "string list \<Rightarrow> (string \<rightharpoonup> 'v) \<Rightarrow> (string \<times> 'v) list" where
  "range_map [] m = []"
| "range_map (k # ks) m =
     (case m k of None \<Rightarrow> range_map ks m | Some v \<Rightarrow> (k, v) # range_map ks m)"

definition iteration :: "string list \<Rightarrow> (string \<rightharpoonup> 'v) \<Rightarrow> bool" where
  "iteration ks m \<longleftrightarrow> distinct ks \<and> set ks = dom m"

record orders =
  hdr_order :: "string list"
  cookie_order :: "string list"
  attr_order :: "string list"

definition hex :: "nat \<Rightarrow> char" where
  "hex n = ''0123456789abcdef'' ! (n mod 16)"

text \<open>
  A byte below \<open>0x80\<close> of a string value: quote and backslash get a backslash, newline,
  carriage return and tab their letter, the other control bytes and \<open><\<close>, \<open>>\<close>, \<open>&\<close> a
  \<open>\u00XX\<close> escape; every other byte is copied.
\<close>

definition escape_byte :: "char \<Rightarrow> string" where
  "escape_byte c =
     (if c = CHR 0x22 \<or> c = CHR 0x5C then [CHR 0x5C, c]
      else if c = CHR 0x0A then [CHR 0x5C, CHR ''n'']
      else if c = CHR 0x0D then [CHR 0x5C, CHR ''r'']
      else if c = CHR 0x09 then [CHR 0x5C, CHR ''t'']
      else if of_char c < (0x20 :: nat) \<or> c = CHR ''<'' \<or> c = CHR ''>'' \<or> c = CHR ''&''
      then [CHR 0x5C, CHR ''u'', CHR ''0'', CHR ''0'',
            hex (of_char c div 16), hex (of_char c mod 16)]
      else [c])"

text \<open>
  \<^verbatim>\<open>utf8.DecodeRuneInString\<close> of the Go standard library: the code point at the head of
  the string and the number of bytes it takes. \<open>lead\<close> gives, for a leading byte, the
  length of its sequence and the range of the second byte. A sequence that is not
  well-formed UTF-8 decodes to \<open>RuneError\<close> (U+FFFD) with width 1.
\<close>

definition RuneError :: nat where
  "RuneError = 0xFFFD"

definition lead :: "nat \<Rightarrow> (nat \<times> nat \<times> nat) option" where
  "lead b =
     (if 0xC2 \<le> b \<and> b \<le> 0xDF then Some (2, 0x80, 0xBF)
      else if b = 0xE0 then Some (3, 0xA0, 0xBF)
      else if 0xE1 \<le> b \<and> b \<le> 0xEC then Some (3, 0x80, 0xBF)
      else if b = 0xED then Some (3, 0x80, 0x9F)
      else if b = 0xEE \<or> b = 0xEF then Some (3, 0x80, 0xBF)
      else if b = 0xF0 then Some (4, 0x90, 0xBF)
      else if 0xF1 \<le> b \<and> b \<le> 0xF3 then Some (4, 0x80, 0xBF)
      else if b = 0xF4 then Some (4, 0x80, 0x8F)
      else None)"

definition DecodeRuneInString :: "string \<Rightarrow> nat \<times> nat" where
  "DecodeRuneInString s =
     (case s of
        [] \<Rightarrow> (RuneError, 0)
      | c0 # rest \<Rightarrow>
          (let s0 = of_char c0
           in if s0 < 0x80 then (s0, 1)
              else
                (case lead s0 of
                   None \<Rightarrow> (RuneError, 1)
                 | Some (sz, lo, hi) \<Rightarrow>
                     if length s < sz then (RuneError, 1)
                     else
                       (let s1 = of_char (s ! 1)
                        in if s1 < lo \<or> hi < s1 then (RuneError, 1)
                           else if sz \<le> 2 then ((s0 mod 32) * 64 + s1 mod 64, 2)
                           else
                             (let s2 = of_char (s ! 2)
                              in if s2 < 0x80 \<or> 0xBF < s2 then (RuneError, 1)
                                 else if sz \<le> 3
                                 then ((s0 mod 16) * 4096 + (s1 mod 64) * 64 + s2 mod 64, 3)
                                 else
                                   (let s3 = of_char (s ! 3)
                                    in if s3 < 0x80 \<or> 0xBF < s3 then (RuneError, 1)
                                       else ((s0 mod 8) * 262144 + (s1 mod 64) * 4096
                                             + (s2 mod 64) * 64 + s3 mod 64, 4)))))))"

text \<open>
  The body of a string value. Bytes below \<open>0x80\<close> are escaped one by one. From any
  other byte a code point is decoded: a byte that starts no well-formed sequence is
  written as \<open>\ufffd\<close>, the separators U+2028 and U+2029 as \<open>\u2028\<close> and \<open>\u2029\<close>, and the
  bytes of any other code point are copied.
\<close>

fun write_escaped :: "string \<Rightarrow> string" where
  "write_escaped [] = []"
| "write_escaped (c # cs) =
     (if of_char c < (0x80 :: nat) then escape_byte c @ write_escaped cs
      else
        (case DecodeRuneInString (c # cs) of
           (rune, width) \<Rightarrow>
             if rune = RuneError \<and> width = 1
             then CHR 0x5C # ''ufffd'' @ write_escaped cs
             else if rune = 0x2028 \<or> rune = 0x2029
             then CHR 0x5C # ''u202'' @ [hex (rune mod 16)] @ write_escaped (drop (width - 1) cs)
             else take width (c # cs) @ write_escaped (drop (width - 1) cs)))"

definition WriteString :: "string \<Rightarrow> string" where
  "WriteString s = [CHR 0x22] @ write_escaped s @ [CHR 0x22]"

definition WriteBool :: "bool \<Rightarrow> string" where
  "WriteBool b = (if b then ''true'' else ''false'')"

definition WriteArray :: "string list \<Rightarrow> string" where
  "WriteArray vs = ''['' @ Join vs '','' @ '']''"

definition WriteObject :: "(string \<times> string) list \<Rightarrow> string" where
  "WriteObject kvs = ''{'' @ Join (map (\<lambda>(k, v). WriteString k @ '':'' @ v) kvs) '','' @ ''}''"

definition WriteAttr :: "attr \<Rightarrow> string + string" where
  "WriteAttr v =
     (case v of
        AttrBool b \<Rightarrow> Inr (WriteBool b)
      | AttrString s \<Rightarrow> Inr (WriteString s)
      | AttrUnsupported ty \<Rightarrow> Inl (ty @ '' is unsupported type''))"

fun WriteAttrs :: "(string \<times> attr) list \<Rightarrow> string + (string \<times> string) list" where
  "WriteAttrs [] = Inr []"
| "WriteAttrs ((k, v) # kvs) =
     (case WriteAttr v of
        Inl err \<Rightarrow> Inl err
      | Inr x \<Rightarrow> (case WriteAttrs kvs of Inl err \<Rightarrow> Inl err | Inr xs \<Rightarrow> Inr ((k, x) # xs)))"

definition Marshal :: "orders \<Rightarrow> Request \<Rightarrow> error + string" where
  "Marshal ords req =
     (case WriteAttrs (range_map (attr_order ords) (req_Attributes req)) of
        Inl msg \<Rightarrow> Inl (Str (''validator.Request.Attributes: '' @ msg))
      | Inr attributes \<Rightarrow>
          Inr (WriteObject
            [(''remoteAddr'', WriteString (req_RemoteAddr req)),
             (''protocol'', WriteString (req_Protocol req)),
             (''method'', WriteString (req_Method req)),
             (''uri'', WriteString (req_URI req)),
             (''headers'', WriteObject (map (\<lambda>(k, vs). (k, WriteArray (map WriteString vs)))
                (range_map (hdr_order ords) (req_Header req)))),
             (''cookies'', WriteObject (map (\<lambda>(k, v). (k, WriteString v))
                (range_map (cookie_order ords) (req_Cookies req)))),
             (''rawQuery'', WriteString (req_RawQuery req)),
             (''parsed'', WriteBool (req_Parsed req)),
             (''attributes'', WriteObject attributes)]))"

subsection \<open>ServerAccessValidator and TopicsAccessValidator\<close>

text \<open>
  Both return the bytes or the error, and the request as the call leaves it: the bag is
  shared with the caller, the marker is stored in it, and the deferred \<^verbatim>\<open>delete\<close> runs on
  every return that follows the \<^verbatim>\<open>defer\<close> statement.
\<close>

definition ServerAccessValidator :: "orders \<Rightarrow> http_request \<Rightarrow> (error + string) \<times> http_request" where
  "ServerAccessValidator ords r =
     (case attributes_Set r ''ws:joinServer'' (AttrBool True) of
        Inl err \<Rightarrow> (Inl (E (Some ''server_access_validator'') (Some err)), r)
      | Inr r1 \<Rightarrow>
          (let rq = ReplaceAll_byte (ReplaceAll_byte (URL_RawQuery r1) CHR 0x0A) CHR 0x0D;
               req = \<lparr>req_RemoteAddr = FetchIP (RemoteAddr r1),
                      req_Protocol = Proto r1,
                      req_Method = Method r1,
                      req_URI = URI r1,
                      req_Header = Header r1,
                      req_Cookies = Map.empty,
                      req_RawQuery = rq,
                      req_Parsed = False,
                      req_Attributes = attributes_All r1\<rparr>;
               res = Marshal ords req;
               r2 = delete_All r1 joinServer
           in (case res of
                 Inl err \<Rightarrow> (Inl (E (Some ''server_access_validator'') (Some err)), r2)
               | Inr data \<Rightarrow> (Inr data, r2))))"

definition TopicsAccessValidator ::
  "orders \<Rightarrow> http_request \<Rightarrow> string list \<Rightarrow> (error + string) \<times> http_request" where
  "TopicsAccessValidator ords r topics =
     (case attributes_Set r ''ws:joinTopics'' (AttrString (Join topics '','')) of
        Inl err \<Rightarrow> (Inl (E (Some ''topic_access_validator'') (Some err)), r)
      | Inr r1 \<Rightarrow>
          (let rq = ReplaceAll_byte (ReplaceAll_byte (URL_RawQuery r1) CHR 0x0A) CHR 0x0D;
               req = \<lparr>req_RemoteAddr = FetchIP (RemoteAddr r1),
                      req_Protocol = Proto r1,
                      req_Method = Method r1,
                      req_URI = URI r1,
                      req_Header = Header r1,
                      req_Cookies = Map.empty,
                      req_RawQuery = rq,
                      req_Parsed = False,
                      req_Attributes = attributes_All r1\<rparr>;
               res = Marshal ords req;
               r2 = delete_All r1 joinTopics
           in (case res of
                 Inl err \<Rightarrow> (Inl (E (Some ''topic_access_validator'') (Some err)), r2)
               | Inr data \<Rightarrow> (Inr data, r2))))"

section \<open>The plugin\<close>

subsection \<open>State\<close>

text \<open>
  A payload slot has its two byte buffers (a slice's capacity plays no part in what the
  plugin reads). An \<open>AccessValidator\<close> is the decoded answer of the worker.
\<close>

record Payload =
  pld_Context :: string
  pld_Body :: string

record AccessValidator =
  av_Header :: "string \<rightharpoonup> string list"
  av_Status :: int
  av_Body :: string

text \<open>
  The handler talks to its \<^verbatim>\<open>http.ResponseWriter\<close> and to packages outside this file
  through calls; the state keeps them in the order they are made.
\<close>

datatype rw_call = Add string string | WriteHeader int | Write string

datatype call =
    ServeHTTP
  | UpgradeHTTP
  | NewConnection
  | NewExecutor string
  | StartCommandLoop string
  | CleanUp string
  | Body_Close
  | Close string
  | LogDebug string
  | LogError string

text \<open>
  \<open>readers\<close> counts the read locks held on the plugin's \<^verbatim>\<open>RWMutex\<close>, \<open>connections\<close> holds
  the keys of the connection registry, \<open>pldPool\<close> the payload slots lying in the pool,
  \<open>response\<close> the calls made on the response writer and \<open>calls\<close> the other calls.
\<close>

record state =
  readers :: int
  connections :: "string set"
  pldPool :: "Payload list"
  response :: "rw_call list"
  calls :: "call list"

definition RLock :: "state \<Rightarrow> state" where
  "RLock s = s\<lparr>readers := readers s + 1\<rparr>"

definition RUnlock :: "state \<Rightarrow> state" where
  "RUnlock s = s\<lparr>readers := readers s - 1\<rparr>"

definition do_call :: "call \<Rightarrow> state \<Rightarrow> state" where
  "do_call c s = s\<lparr>calls := calls s @ [c]\<rparr>"

definition respond :: "rw_call list \<Rightarrow> state \<Rightarrow> state" where
  "respond cs s = s\<lparr>response := response s @ cs\<rparr>"

subsection \<open>The payload pool\<close>

text \<open>\<^verbatim>\<open>Init\<close> installs an empty pool whose \<^verbatim>\<open>New\<close> makes a slot with two empty buffers.\<close>

definition New :: Payload where
  "New = \<lparr>pld_Context = [], pld_Body = []\<rparr>"

definition Init :: "state \<Rightarrow> state" where
  "Init s = s\<lparr>pldPool := []\<rparr>"

definition putPld :: "Payload \<Rightarrow> state \<Rightarrow> state" where
  "putPld pld s = s\<lparr>pldPool := pld\<lparr>pld_Context := [], pld_Body := []\<rparr> # pldPool s\<rparr>"

text \<open>
  \<^verbatim>\<open>sync.Pool.Get\<close> hands out some slot lying in the pool, or a new one when it finds
  none; \<open>pick\<close> is the runtime's choice.
\<close>

definition getPld :: "nat \<Rightarrow> state \<Rightarrow> Payload \<times> state" where
  "getPld pick s =
     (if pick < length (pldPool s)
      then (pldPool s ! pick, s\<lparr>pldPool := take pick (pldPool s) @ drop (Suc pick) (pldPool s)\<rparr>)
      else (New, s))"

subsection \<open>exec and the default access validator\<close>

text \<open>
  What one authorization call gets from outside: the orders in which the maps are
  traversed, the pool's choice, the worker pool's answer to a payload and the JSON
  decoder's result on the answer's context (it decodes into a value whose body is
  already set).
\<close>

record runtime =
  map_orders :: orders
  pool_pick :: nat
  phpPool_Exec :: "Payload \<Rightarrow> error + Payload"
  Unmarshal :: "string \<Rightarrow> AccessValidator \<Rightarrow> error + AccessValidator"

definition exec :: "runtime \<Rightarrow> string \<Rightarrow> state \<Rightarrow> (error + AccessValidator) \<times> state" where
  "exec rt ctx s =
     (case getPld (pool_pick rt) s of
        (pd0, s1) \<Rightarrow>
          (let pd = pd0\<lparr>pld_Context := ctx\<rparr>;
               s2 = RLock s1;
               answer = phpPool_Exec rt pd;
               s3 = RUnlock s2
           in (case answer of
                 Inl err \<Rightarrow> (Inl (E (Some ''exec'') (Some err)), putPld pd s3)
               | Inr rsp \<Rightarrow>
                   (case Unmarshal rt (pld_Context rsp)
                           \<lparr>av_Header = Map.empty, av_Status = 0, av_Body = pld_Body rsp\<rparr> of
                      Inl err \<Rightarrow> (Inl (E (Some ''exec'') (Some err)), putPld pd s3)
                    | Inr val \<Rightarrow> (Inr val, putPld pd s3)))))"

text \<open>Decimal digits of a number, for \<^verbatim>\<open>%d\<close>.\<close>

fun digits :: "nat \<Rightarrow> string" where
  "digits n =
     (if n < 10 then [''0123456789'' ! n]
      else digits (n div 10) @ [''0123456789'' ! (n mod 10)])"

declare digits.simps [simp del]

definition Itoa :: "int \<Rightarrow> string" where
  "Itoa i = (if i < 0 then ''-'' @ digits (nat (- i)) else digits (nat i))"

text \<open>
  The validator returns Go's pair of a result pointer and an error, either of which may
  be nil. It works on the request that \<^verbatim>\<open>attributes.Init\<close> returns, so the caller's
  request keeps its own context.
\<close>

definition defaultAccessValidator ::
  "runtime \<Rightarrow> http_request \<Rightarrow> string list \<Rightarrow> state
     \<Rightarrow> (AccessValidator option \<times> error option) \<times> state" where
  "defaultAccessValidator rt r0 topics s =
     (let s0 = do_call (LogDebug ''validation'') s;
          r = attributes_Init r0
      in if length topics = 0
         then (case fst (ServerAccessValidator (map_orders rt) r) of
                 Inl err \<Rightarrow> ((None, Some (E (Some ''access_validator'') (Some err))), s0)
               | Inr ctx \<Rightarrow>
                   (case exec rt ctx s0 of
                      (Inl err, s1) \<Rightarrow> ((None, Some (E None (Some err))), s1)
                    | (Inr val, s1) \<Rightarrow> ((Some val, None), s1)))
         else (case fst (TopicsAccessValidator (map_orders rt) r topics) of
                 Inl err \<Rightarrow> ((None, Some (E (Some ''access_validator'') (Some err))), s0)
               | Inr ctx \<Rightarrow>
                   (case exec rt ctx s0 of
                      (Inl err, s1) \<Rightarrow> ((None, Some (E (Some ''access_validator'') None)), s1)
                    | (Inr val, s1) \<Rightarrow>
                        if av_Status val \<noteq> 200
                        then ((Some val,
                               Some (E (Some ''access_validator'')
                                 (Some (Str (''access forbidden, code: '' @ Itoa (av_Status val)))))),
                              s1)
                        else ((Some val, None), s1))))"

subsection \<open>Middleware\<close>

text \<open>
  What one run of the handler gets from outside: the configured path, the origin check
  (\<^verbatim>\<open>isOriginAllowed\<close> is defined in a file that is not among the sources, so it is a
  parameter), the value of the \<^verbatim>\<open>accessValidator\<close> field (\<^term>\<open>None\<close> while \<^verbatim>\<open>Serve\<close> has not
  set it), the order in which the answer's header map is traversed, the fresh UUID and
  the errors of the upgrade, of the command loop and of the two closes. The tracing
  span opened at the top of the handler is left out.
\<close>

datatype outcome = Returned | Panicked

record env =
  cfg_Path :: string
  isOriginAllowed :: "string \<Rightarrow> bool"
  accessValidator ::
    "(http_request \<Rightarrow> state \<Rightarrow> (AccessValidator option \<times> error option) \<times> state) option"
  header_order :: "string list"
  UpgradeHTTP_err :: "error option"
  NewString :: string
  StartCommandLoop_err :: "error option"
  Body_Close_err :: "error option"
  Close_err :: "error option"

text \<open>\<^verbatim>\<open>Header.Get\<close> for a key in canonical form: the first value, or the empty string.\<close>

definition Header_Get :: "(string \<rightharpoonup> string list) \<Rightarrow> string \<Rightarrow> string" where
  "Header_Get h k = (case h k of Some (v # vs) \<Rightarrow> v | _ \<Rightarrow> '''')"

text \<open>
  \<^verbatim>\<open>WriteHeader\<close> of the server's response writer panics for a status code that has
  not three digits; the codes 405 and 400 that the handler writes itself pass the check.
  A panic ends the handler where it stands.
\<close>

definition checkWriteHeaderCode :: "int \<Rightarrow> bool" where
  "checkWriteHeaderCode code \<longleftrightarrow> 100 \<le> code \<and> code \<le> 999"

definition Middleware :: "env \<Rightarrow> http_request \<Rightarrow> state \<Rightarrow> outcome \<times> state" where
  "Middleware e r s =
     (if URL_Path r \<noteq> cfg_Path e then (Returned, do_call ServeHTTP s)
      else
        (let s1 = RLock s
         in if \<not> isOriginAllowed e (Header_Get (Header r) ''Origin'')
            then (Returned, respond [WriteHeader 405] s1)
            else
              (case accessValidator e of
                 None \<Rightarrow> (Panicked, s1)
               | Some validate \<Rightarrow>
                   (case validate r s1 of
                      ((val, err), s2) \<Rightarrow>
                        (let s3 = RUnlock s2
                         in if err \<noteq> None then (Returned, respond [WriteHeader 400] s3)
                            else
                              (case val of
                                 None \<Rightarrow> (Panicked, s3)
                               | Some v \<Rightarrow>
                                   if av_Status v \<noteq> 200
                                   then
                                     (let s4 = respond
                                            (concat (map (\<lambda>(k, vs). map (Add k) vs)
                                               (range_map (header_order e) (av_Header v)))
                                             @ [WriteHeader (av_Status v)]) s3
                                      in if \<not> checkWriteHeaderCode (av_Status v)
                                         then (Panicked, s4)
                                         else (Returned, respond [Write (av_Body v)] s4))
                                   else
                                     (let s4 = do_call UpgradeHTTP s3
                                      in case UpgradeHTTP_err e of
                                           Some err \<Rightarrow>
                                             (Returned, do_call (LogError ''upgrade connection'') s4)
                                         | None \<Rightarrow>
                                             (let s5 = do_call NewConnection s4;
                                                  connectionID = NewString e;
                                                  s6 = s5\<lparr>connections :=
                                                         insert connectionID (connections s5)\<rparr>;
                                                  s7 = do_call (NewExecutor connectionID) s6;
                                                  s8 = do_call
                                                         (LogDebug ''websocket client connected'') s7;
                                                  s9 = do_call (StartCommandLoop connectionID) s8
                                              in case StartCommandLoop_err e of
                                                   Some err \<Rightarrow>
                                                     (Returned,
                                                      do_call (LogError
                                                        ''command loop error, disconnecting'') s9)
                                                 | None \<Rightarrow>
                                                     (let s10 = s9\<lparr>connections :=
                                                                  connections s9 - {connectionID}\<rparr>;
                                                          s11 = do_call (CleanUp connectionID) s10;
                                                          s12 = do_call Body_Close s11;
                                                          s13 = (case Body_Close_err e of
                                                                   Some err \<Rightarrow>
                                                                     do_call (LogError ''body close'') s12
                                                                 | None \<Rightarrow> s12);
                                                          s14 = do_call (Close connectionID) s13;
                                                          s15 = (case Close_err e of
                                                                   Some err \<Rightarrow>
                                                                     do_call
                                                                       (LogError ''connection close'')
                                                                       s14
                                                                 | None \<Rightarrow> s14)
                                                      in (Returned,
                                                          do_call (LogDebug ''disconnected'')
                                                            s15))))))))))"

subsection \<open>The broker reader of Serve\<close>

text \<open>
  The goroutine that \<^verbatim>\<open>Serve\<close> starts calls \<^verbatim>\<open>Next\<close> in an endless loop. The loop is run
  on the results of the successive calls; when they are used up it is still waiting in
  \<^verbatim>\<open>Next\<close>. \<open>queued\<close> holds the messages given to the fan-out pool and \<open>errCh\<close> the errors
  sent on the channel that \<^verbatim>\<open>Serve\<close> returns (a channel with a buffer of one).
\<close>

record Message =
  msg_Topic :: string
  msg_Payload :: string

record serve =
  queued :: "Message list"
  errCh :: "error list"

datatype loop = Waiting | Exited

fun Serve_reader :: "(error + Message) list \<Rightarrow> serve \<Rightarrow> loop \<times> serve" where
  "Serve_reader [] sv = (Waiting, sv)"
| "Serve_reader (Inl err # nexts) sv =
     (if Is TimeOut err then (Exited, sv)
      else (Exited, sv\<lparr>errCh := errCh sv @ [E (Some ''websockets_plugin_serve'') (Some err)]\<rparr>))"
| "Serve_reader (Inr data # nexts) sv = Serve_reader nexts (sv\<lparr>queued := queued sv @ [data]\<rparr>)"

section \<open>Sample inputs\<close>

text \<open>
  A request for the configured path, an idle plugin, a worker answer with a given status
  and an environment whose validator returns that answer.
\<close>

definition example_request :: http_request where
  "example_request =
     \<lparr>RemoteAddr = ''10.0.0.7:51234'', Proto = ''HTTP/1.1'', Method = ''GET'',
      URL_String = ''/ws?room=1'', URL_Host = '''', URL_Path = ''/ws'',
      URL_RawQuery = ''room=1'', Host = ''example.org'', TLS = False,
      Header = [''Origin'' \<mapsto> [''https://example.org'']], attrs = None\<rparr>"

definition example_state :: state where
  "example_state = \<lparr>readers = 0, connections = {}, pldPool = [], response = [], calls = []\<rparr>"

definition example_answer :: "int \<Rightarrow> AccessValidator" where
  "example_answer st =
     \<lparr>av_Header = [''X-Reason'' \<mapsto> [''no'', ''way'']], av_Status = st, av_Body = ''denied''\<rparr>"

definition example_env :: "int \<Rightarrow> (string \<Rightarrow> bool) \<Rightarrow> error option \<Rightarrow> env" where
  "example_env st allowed loop_err =
     \<lparr>cfg_Path = ''/ws'', isOriginAllowed = allowed,
      accessValidator = Some (\<lambda>r s. ((Some (example_answer st), None), s)),
      header_order = [''X-Reason''], UpgradeHTTP_err = None, NewString = ''c1'',
      StartCommandLoop_err = loop_err, Body_Close_err = None, Close_err = None\<rparr>"



definition example_orders :: "string list \<Rightarrow> string list \<Rightarrow> string \<Rightarrow> orders" where
  "example_orders hs cs marker = \<lparr>hdr_order = hs, cookie_order = cs, attr_order = [marker]\<rparr>"

definition example_reply :: Payload where
  "example_reply = \<lparr>pld_Context = ''{}'', pld_Body = ''denied''\<rparr>"

text \<open>
  A runtime whose worker pool gives one fixed answer and whose decoder reads status 403
  out of every context that is not empty.
\<close>

definition example_runtime :: "string \<Rightarrow> (error + Payload) \<Rightarrow> runtime" where
  "example_runtime marker answer =
     \<lparr>map_orders = example_orders [''Origin''] [] marker, pool_pick = 0,
      phpPool_Exec = (\<lambda>pd. answer),
      Unmarshal = (\<lambda>ctx val. if ctx = '''' then Inl (Str ''unexpected end of JSON input'')
                               else Inr (val\<lparr>av_Status := 403\<rparr>))\<rparr>"

section \<open>Histories of the payload pool\<close>

text \<open>
  The calls of the plugin that touch the pool, and the state after a sequence of them.
  A slot is empty when both of its buffers have length zero.
\<close>

datatype pool_op =
    GetPld nat
  | PutPld Payload
  | Exec runtime string
  | Validate runtime http_request "string list"

fun run_op :: "state \<Rightarrow> pool_op \<Rightarrow> state" where
  "run_op s (GetPld pick) = snd (getPld pick s)"
| "run_op s (PutPld pld) = putPld pld s"
| "run_op s (Exec rt ctx) = snd (exec rt ctx s)"
| "run_op s (Validate rt r topics) = snd (defaultAccessValidator rt r topics s)"

definition empty_slot :: "Payload \<Rightarrow> bool" where
  "empty_slot pld \<longleftrightarrow> pld_Context pld = [] \<and> pld_Body pld = []"

definition pool_clean :: "state \<Rightarrow> bool" where
  "pool_clean s \<longleftrightarrow> list_all empty_slot (pldPool s)"

section \<open>Properties of FetchIP\<close>

lemma IndexByte_append: "c \<notin> set xs \<Longrightarrow> IndexByte (xs @ c # ys) c = Some (length xs)"
  by (induction xs) auto

lemma LastIndexByte_append: "c \<notin> set ys \<Longrightarrow> LastIndexByte (xs @ c # ys) c = Some (length xs)"
  using IndexByte_append [of c "rev ys" "rev xs"] by (simp add: LastIndexByte_def)

lemma SplitHostPort_plain:
  assumes "plain host" and "plain port"
  shows "SplitHostPort (host @ CHR '':'' # port) = (host, port, None)"
proof -
  have i: "LastIndexByte (host @ CHR '':'' # port) CHR '':'' = Some (length host)"
    using assms LastIndexByte_append [of "CHR '':''" port host] by (simp add: plain_def)
  have b: "take 1 (host @ CHR '':'' # port) \<noteq> ''[''"
    using assms by (cases host) (auto simp: plain_def)
  show ?thesis
    unfolding SplitHostPort_def i using assms b by (simp add: plain_def Let_def)
qed

lemma SplitHostPort_bracket:
  assumes "CHR ''['' \<notin> set h" and "CHR '']'' \<notin> set h" and "plain port"
  shows "SplitHostPort (CHR ''['' # h @ CHR '']'' # CHR '':'' # port) = (h, port, None)"
proof -
  have i: "LastIndexByte (CHR ''['' # h @ CHR '']'' # CHR '':'' # port) CHR '':''
      = Some (length h + 2)"
    using assms LastIndexByte_append [of "CHR '':''" port "CHR ''['' # h @ '']''"]
    by (simp add: plain_def)
  have e: "IndexByte (CHR ''['' # h @ CHR '']'' # CHR '':'' # port) CHR '']''
      = Some (length h + 1)"
    using assms IndexByte_append [of "CHR '']''" "CHR ''['' # h" "CHR '':'' # port"] by simp
  show ?thesis
    unfolding SplitHostPort_def i e using assms by (simp add: plain_def Let_def)
qed

text \<open>
  A pair without a colon is returned unchanged. For \<open>host:port\<close>, where neither part
  holds a colon or a bracket, and for \<open>[host]:port\<close>, where the host holds no bracket,
  the result is the host.
\<close>

lemma FetchIP_strips_port:
  "(CHR '':'' \<notin> set pair \<longrightarrow> FetchIP pair = pair) \<and>
   (plain host \<and> plain port \<longrightarrow> FetchIP (host @ '':'' @ port) = host) \<and>
   (CHR ''['' \<notin> set h \<and> CHR '']'' \<notin> set h \<and> plain port \<longrightarrow>
      FetchIP (''['' @ h @ '']:'' @ port) = h)"
proof (intro conjI impI)
  assume "CHR '':'' \<notin> set pair"
  then show "FetchIP pair = pair"
    by (simp add: FetchIP_def)
next
  assume "plain host \<and> plain port"
  then have "SplitHostPort (host @ CHR '':'' # port) = (host, port, None)"
    by (simp add: SplitHostPort_plain)
  then show "FetchIP (host @ '':'' @ port) = host"
    by (simp add: FetchIP_def)
next
  assume "CHR ''['' \<notin> set h \<and> CHR '']'' \<notin> set h \<and> plain port"
  then have "SplitHostPort (CHR ''['' # h @ CHR '']'' # CHR '':'' # port) = (h, port, None)"
    by (simp add: SplitHostPort_bracket)
  then show "FetchIP (''['' @ h @ '']:'' @ port) = h"
    by (simp add: FetchIP_def)
qed

text \<open>
  C3 fails on the code. A remote address that holds a colon and no port, such as the
  IPv6 address \<open>::1\<close>, is not kept: \<^verbatim>\<open>SplitHostPort\<close> rejects it, \<^verbatim>\<open>FetchIP\<close> drops the error
  and returns the empty host, and the serialized request carries an empty
  \<open>remoteAddr\<close>. (An address without a colon and without a port is returned unchanged.)
\<close>

theorem FetchIP_drops_portless_ipv6:
  \<open>FetchIP ''::1'' = '''' \<and>
   fst (ServerAccessValidator (example_orders [''Origin''] [] joinServer)
          (attributes_Init (example_request\<lparr>RemoteAddr := ''::1''\<rparr>))) =
     Inr ''{"remoteAddr":"","protocol":"HTTP/1.1","method":"GET","uri":"http://example.org/ws?room=1","headers":{"Origin":["https://example.org"]},"cookies":{},"rawQuery":"room=1","parsed":false,"attributes":{"ws:joinServer":true}}''\<close>
proof -
  have ip: "FetchIP ''::1'' = ''''"
    by (simp add: FetchIP_def SplitHostPort_def LastIndexByte_def addrErr_def)
  show ?thesis
    by (simp add: ip ServerAccessValidator_def attributes_Set_def attributes_Init_def
        attributes_All_def example_request_def example_orders_def Marshal_def Let_def
        URI_def ReplaceAll_byte_def WriteObject_def WriteArray_def WriteString_def
        WriteAttr_def WriteBool_def escape_byte_def joinServer_def)
qed

section \<open>Middleware\<close>






text \<open>
  When the command loop returns without an error the handler removes the connection
  from the registry, calls \<^verbatim>\<open>CleanUp\<close> and closes the request body and the connection.
\<close>

lemma Middleware_loop_nil_cleans_up:
  assumes "URL_Path r = cfg_Path e"
    and "isOriginAllowed e (Header_Get (Header r) ''Origin'')"
    and "accessValidator e = Some validate"
    and "validate r (RLock s) = ((Some v, None), s2)"
    and "av_Status v = 200"
    and "UpgradeHTTP_err e = None"
    and "StartCommandLoop_err e = None"
  shows "NewString e \<notin> connections (snd (Middleware e r s)) \<and>
    CleanUp (NewString e) \<in> set (calls (snd (Middleware e r s))) \<and>
    Body_Close \<in> set (calls (snd (Middleware e r s))) \<and>
    Close (NewString e) \<in> set (calls (snd (Middleware e r s)))"
  using assms
  by (simp add: Middleware_def Let_def do_call_def RUnlock_def split: option.splits)

text \<open>
  C1 fails on the code. When \<^verbatim>\<open>StartCommandLoop\<close> returns an error the handler logs it and
  returns: the connection stays in the registry, and neither \<^verbatim>\<open>CleanUp\<close> nor the two
  closes are called.
\<close>

theorem Middleware_loop_error_skips_cleanup:
  "Middleware (example_env 200 (\<lambda>origin. True) (Some (Str ''unexpected EOF'')))
     example_request example_state =
     (Returned, example_state\<lparr>connections := {''c1''},
        calls := [UpgradeHTTP, NewConnection, NewExecutor ''c1'',
          LogDebug ''websocket client connected'', StartCommandLoop ''c1'',
          LogError ''command loop error, disconnecting'']\<rparr>)"
  by (simp add: Middleware_def example_env_def example_request_def example_state_def
      example_answer_def Header_Get_def RLock_def RUnlock_def do_call_def Let_def)

text \<open>
  Once the origin is accepted and the validator has returned, the handler has released
  the read lock it took, whichever way it goes on.
\<close>

lemma Middleware_releases_after_validator:
  assumes "URL_Path r = cfg_Path e"
    and "isOriginAllowed e (Header_Get (Header r) ''Origin'')"
    and "accessValidator e = Some validate"
    and "validate r (RLock s) = (res, s2)"
  shows "readers (snd (Middleware e r s)) = readers s2 - 1"
  using assms
  by (cases res)
    (simp add: Middleware_def Let_def do_call_def respond_def RUnlock_def
      split: option.splits)

text \<open>
  C2 fails on the code. A request whose origin is not allowed is answered with 405 while
  the read lock taken before the check is still held when the handler returns.
\<close>

theorem Middleware_origin_mismatch_keeps_lock:
  "Middleware (example_env 200 (\<lambda>origin. False) None) example_request example_state =
     (Returned, example_state\<lparr>readers := 1, response := [WriteHeader 405]\<rparr>)"
  by (simp add: Middleware_def example_env_def example_request_def example_state_def
      RLock_def respond_def Let_def)

section \<open>The validators\<close>

text \<open>
  C5. Whatever the outcome (the marker could not be set, the marshalling failed, or the
  bytes are returned), each validator leaves the request as it found it but for the
  attribute bag, and the bag as it found it but for the marker's key, which is absent.
\<close>

theorem validators_restore_attributes:
  "snd (ServerAccessValidator ords r) =
     r\<lparr>attrs := map_option (\<lambda>bag. bag(joinServer := None)) (attrs r)\<rparr> \<and>
   snd (TopicsAccessValidator ords r topics) =
     r\<lparr>attrs := map_option (\<lambda>bag. bag(joinTopics := None)) (attrs r)\<rparr>"
  by (cases "attrs r")
    (simp_all add: ServerAccessValidator_def TopicsAccessValidator_def attributes_Set_def
      delete_All_def joinServer_def joinTopics_def Let_def split: sum.splits)

text \<open>The path on which the marshalling fails: a bag that holds a Go channel.\<close>

lemma validators_restore_after_marshal_error:
  "ServerAccessValidator
     \<lparr>hdr_order = [''Origin''], cookie_order = [], attr_order = [''trace'', ''ws:joinServer'']\<rparr>
     (example_request\<lparr>attrs := Some [''trace'' \<mapsto> AttrUnsupported ''chan int'']\<rparr>) =
   (Inl (E (Some ''server_access_validator'')
      (Some (Str ''validator.Request.Attributes: chan int is unsupported type''))),
    example_request\<lparr>attrs := Some [''trace'' \<mapsto> AttrUnsupported ''chan int'']\<rparr>)"
  by (simp add: ServerAccessValidator_def attributes_Set_def attributes_All_def delete_All_def
      Marshal_def Let_def joinServer_def WriteAttr_def example_request_def fun_upd_twist)


text \<open>Traversals of a map, and the entries that the encoder writes for them.\<close>

lemma range_map_empty: "range_map ks Map.empty = []"
  by (induction ks) auto



lemma WriteAttrs_supported:
  assumes "\<And>k v. m k = Some v \<Longrightarrow> \<exists>x. WriteAttr v = Inr x"
  shows "\<exists>xs. WriteAttrs (range_map ks m) = Inr xs"
proof (induction ks)
  case Nil
  then show ?case by simp
next
  case (Cons k ks)
  then obtain xs where xs: "WriteAttrs (range_map ks m) = Inr xs" by blast
  show ?case
  proof (cases "m k")
    case None
    then show ?thesis using xs by simp
  next
    case (Some v)
    then obtain x where "WriteAttr v = Inr x" using assms by blast
    then show ?thesis using xs Some by simp
  qed
qed

lemma range_map_append: "range_map (ks1 @ ks2) m = range_map ks1 m @ range_map ks2 m"
  by (induction ks1) (auto split: option.splits)

lemma WriteAttrs_append:
  "WriteAttrs (as @ bs) =
     (case WriteAttrs as of
        Inl msg \<Rightarrow> Inl msg
      | Inr xs \<Rightarrow> (case WriteAttrs bs of Inl msg \<Rightarrow> Inl msg | Inr ys \<Rightarrow> Inr (xs @ ys)))"
  by (induction as) (auto split: sum.splits)

lemma WriteAttrs_entry:
  assumes it: "iteration ks m" and k: "m k = Some v"
    and w: "WriteAttrs (range_map ks m) = Inr attributes"
  shows "\<exists>xs ys x. WriteAttr v = Inr x \<and> attributes = xs @ [(k, x)] @ ys"
proof -
  have "k \<in> set ks"
    using it k by (auto simp: iteration_def)
  then obtain ks1 ks2 where ks: "ks = ks1 @ k # ks2"
    by (auto dest: split_list)
  have "range_map ks m = range_map ks1 m @ (k, v) # range_map ks2 m"
    by (simp add: ks range_map_append k)
  then have "WriteAttrs (range_map ks1 m @ (k, v) # range_map ks2 m) = Inr attributes"
    using w by simp
  then show ?thesis
    by (auto simp: WriteAttrs_append split: sum.splits)
qed


lemma WriteObject_members:
  "WriteObject [(k1, v1), (k2, v2), (k3, v3), (k4, v4), (k5, v5), (k6, v6), (k7, v7), (k8, v8), (k9, v9)] =
     ''{'' @ WriteString k1 @ '':'' @ v1 @ '','' @ WriteString k2 @ '':'' @ v2 @ '',''
     @ WriteString k3 @ '':'' @ v3 @ '','' @ WriteString k4 @ '':'' @ v4 @ '',''
     @ WriteString k5 @ '':'' @ v5 @ '','' @ WriteString k6 @ '':'' @ v6 @ '',''
     @ WriteString k7 @ '':'' @ v7 @ '','' @ WriteString k8 @ '':'' @ v8 @ '',''
     @ WriteString k9 @ '':'' @ v9 @ ''}''"
  by (simp add: WriteObject_def)

lemma member_names:
  \<open>WriteString ''remoteAddr'' = ''"remoteAddr"''\<close>
  \<open>WriteString ''protocol'' = ''"protocol"''\<close>
  \<open>WriteString ''method'' = ''"method"''\<close>
  \<open>WriteString ''uri'' = ''"uri"''\<close>
  \<open>WriteString ''headers'' = ''"headers"''\<close>
  \<open>WriteString ''cookies'' = ''"cookies"''\<close>
  \<open>WriteString ''rawQuery'' = ''"rawQuery"''\<close>
  \<open>WriteString ''parsed'' = ''"parsed"''\<close>
  \<open>WriteString ''attributes'' = ''"attributes"''\<close>
  \<open>WriteString ''ws:joinServer'' = ''"ws:joinServer"''\<close>
  \<open>WriteString ''ws:joinTopics'' = ''"ws:joinTopics"''\<close>
  by (simp_all add: WriteString_def escape_byte_def)

lemma Marshal_bytes:
  assumes "req_Cookies req = Map.empty" and "req_Parsed req = False"
  shows \<open>Marshal ords req =
    (case WriteAttrs (range_map (attr_order ords) (req_Attributes req)) of
       Inl msg \<Rightarrow> Inl (Str (''validator.Request.Attributes: '' @ msg))
     | Inr attributes \<Rightarrow>
         Inr (''{"remoteAddr":'' @ WriteString (req_RemoteAddr req)
           @ '',"protocol":'' @ WriteString (req_Protocol req)
           @ '',"method":'' @ WriteString (req_Method req)
           @ '',"uri":'' @ WriteString (req_URI req)
           @ '',"headers":'' @ WriteObject (map (\<lambda>(k, vs). (k, WriteArray (map WriteString vs)))
                (range_map (hdr_order ords) (req_Header req)))
           @ '',"cookies":{},"rawQuery":'' @ WriteString (req_RawQuery req)
           @ '',"parsed":false,"attributes":{''
           @ Join (map (\<lambda>(k, v). WriteString k @ '':'' @ v) attributes) '','' @ ''}}''))\<close>
proof -
  have empty: "WriteObject (map (\<lambda>(k, v). (k, WriteString v)) (range_map ks Map.empty)) = ''{}''" for ks
    by (simp add: range_map_empty WriteObject_def)
  have obj: "WriteObject attributes = ''{'' @ Join (map (\<lambda>(k, v). WriteString k @ '':'' @ v) attributes) '','' @ ''}''"
    for attributes
    by (simp add: WriteObject_def)
  show ?thesis
    unfolding Marshal_def WriteObject_members member_names assms empty
    by (simp add: obj WriteBool_def split: sum.splits)
qed


lemma Marshal_carries_entry:
  assumes c: "req_Cookies req = Map.empty" and p: "req_Parsed req = False"
    and it: "iteration (attr_order ords) (req_Attributes req)"
    and k: "req_Attributes req k = Some v"
    and x: "WriteAttr v = Inr x"
    and m: "Marshal ords req = Inr data"
  shows \<open>\<exists>before after.
    data = ''{"remoteAddr":'' @ WriteString (req_RemoteAddr req)
      @ '',"protocol":'' @ WriteString (req_Protocol req)
      @ '',"method":'' @ WriteString (req_Method req)
      @ '',"uri":'' @ WriteString (req_URI req)
      @ '',"headers":'' @ WriteObject (map (\<lambda>(k, vs). (k, WriteArray (map WriteString vs)))
           (range_map (hdr_order ords) (req_Header req)))
      @ '',"cookies":{},"rawQuery":'' @ WriteString (req_RawQuery req)
      @ '',"parsed":false,"attributes":{''
      @ Join (before @ [WriteString k @ '':'' @ x] @ after) '','' @ ''}}''\<close>
proof -
  obtain attributes where a: "WriteAttrs (range_map (attr_order ords) (req_Attributes req)) = Inr attributes"
    using m by (auto simp: Marshal_def split: sum.splits)
  obtain xs ys x' where w: "WriteAttr v = Inr x'" and s: "attributes = xs @ [(k, x')] @ ys"
    using WriteAttrs_entry [OF it k a] by blast
  have x': "x' = x" using w x by simp
  let ?entry = "\<lambda>(k, v). WriteString k @ '':'' @ v"
  have "map ?entry attributes = map ?entry xs @ [WriteString k @ '':'' @ x] @ map ?entry ys"
    by (simp add: s x')
  then show ?thesis
    using m unfolding Marshal_bytes [OF c p] a by auto
qed

lemma validators_marshal_request:
  assumes "attrs r = Some bag"
  shows "fst (ServerAccessValidator ords r) =
      (case Marshal ords
         \<lparr>req_RemoteAddr = FetchIP (RemoteAddr r), req_Protocol = Proto r,
          req_Method = Method r, req_URI = URI r, req_Header = Header r,
          req_Cookies = Map.empty,
          req_RawQuery = ReplaceAll_byte (ReplaceAll_byte (URL_RawQuery r) CHR 0x0A) CHR 0x0D,
          req_Parsed = False,
          req_Attributes = bag(joinServer \<mapsto> AttrBool True)\<rparr> of
         Inl err \<Rightarrow> Inl (E (Some ''server_access_validator'') (Some err))
       | Inr data \<Rightarrow> Inr data)"
    and "fst (TopicsAccessValidator ords r topics) =
      (case Marshal ords
         \<lparr>req_RemoteAddr = FetchIP (RemoteAddr r), req_Protocol = Proto r,
          req_Method = Method r, req_URI = URI r, req_Header = Header r,
          req_Cookies = Map.empty,
          req_RawQuery = ReplaceAll_byte (ReplaceAll_byte (URL_RawQuery r) CHR 0x0A) CHR 0x0D,
          req_Parsed = False,
          req_Attributes = bag(joinTopics \<mapsto> AttrString (Join topics '',''))\<rparr> of
         Inl err \<Rightarrow> Inl (E (Some ''topic_access_validator'') (Some err))
       | Inr data \<Rightarrow> Inr data)"
  using assms
  by (simp_all add: ServerAccessValidator_def TopicsAccessValidator_def attributes_Set_def
      attributes_All_def joinServer_def joinTopics_def Let_def URI_def split: sum.splits)

text \<open>
  C6. For a request that has an attribute bag, the bytes that \<^verbatim>\<open>ServerAccessValidator\<close>
  returns are the JSON object of the request's data whose last member, \<open>attributes\<close>, is
  an object that holds the entry \<open>"ws:joinServer":true\<close> (the marker named by the constant
  \<open>joinServer\<close>), and those that \<^verbatim>\<open>TopicsAccessValidator\<close> returns hold the entry
  \<open>"ws:joinTopics":\<close> followed by the string value of the topics joined by commas; this
  for every traversal of the bag and every list of topics. Both return bytes whenever
  the bag holds no value that JSON cannot encode.
\<close>

theorem validators_carry_marker:
  assumes bag: "attrs r = Some bag"
  shows \<open>(iteration (attr_order ords) (bag(joinServer \<mapsto> AttrBool True)) \<and>
      fst (ServerAccessValidator ords r) = Inr data \<longrightarrow>
      (\<exists>before after.
         data = ''{"remoteAddr":'' @ WriteString (FetchIP (RemoteAddr r))
           @ '',"protocol":'' @ WriteString (Proto r)
           @ '',"method":'' @ WriteString (Method r)
           @ '',"uri":'' @ WriteString (URI r)
           @ '',"headers":'' @ WriteObject (map (\<lambda>(k, vs). (k, WriteArray (map WriteString vs)))
                (range_map (hdr_order ords) (Header r)))
           @ '',"cookies":{},"rawQuery":''
           @ WriteString (ReplaceAll_byte (ReplaceAll_byte (URL_RawQuery r) CHR 0x0A) CHR 0x0D)
           @ '',"parsed":false,"attributes":{''
           @ Join (before @ [''"ws:joinServer":true''] @ after) '','' @ ''}}'')) \<and>
    (iteration (attr_order ords) (bag(joinTopics \<mapsto> AttrString (Join topics '',''))) \<and>
      fst (TopicsAccessValidator ords r topics) = Inr data \<longrightarrow>
      (\<exists>before after.
         data = ''{"remoteAddr":'' @ WriteString (FetchIP (RemoteAddr r))
           @ '',"protocol":'' @ WriteString (Proto r)
           @ '',"method":'' @ WriteString (Method r)
           @ '',"uri":'' @ WriteString (URI r)
           @ '',"headers":'' @ WriteObject (map (\<lambda>(k, vs). (k, WriteArray (map WriteString vs)))
                (range_map (hdr_order ords) (Header r)))
           @ '',"cookies":{},"rawQuery":''
           @ WriteString (ReplaceAll_byte (ReplaceAll_byte (URL_RawQuery r) CHR 0x0A) CHR 0x0D)
           @ '',"parsed":false,"attributes":{''
           @ Join (before @ [''"ws:joinTopics":'' @ WriteString (Join topics '','')] @ after) '',''
           @ ''}}'')) \<and>
    ((\<forall>k v. bag k = Some v \<longrightarrow> (\<forall>ty. v \<noteq> AttrUnsupported ty)) \<longrightarrow>
      (\<exists>d1 d2. fst (ServerAccessValidator ords r) = Inr d1 \<and>
         fst (TopicsAccessValidator ords r topics) = Inr d2))\<close>
proof (intro conjI impI)
  let ?req = "\<lambda>attributes.
     \<lparr>req_RemoteAddr = FetchIP (RemoteAddr r), req_Protocol = Proto r,
      req_Method = Method r, req_URI = URI r, req_Header = Header r,
      req_Cookies = Map.empty,
      req_RawQuery = ReplaceAll_byte (ReplaceAll_byte (URL_RawQuery r) CHR 0x0A) CHR 0x0D,
      req_Parsed = False, req_Attributes = attributes\<rparr>"
  {
    assume h: "iteration (attr_order ords) (bag(joinServer \<mapsto> AttrBool True)) \<and>
      fst (ServerAccessValidator ords r) = Inr data"
    let ?r = "?req (bag(joinServer \<mapsto> AttrBool True))"
    have m: "Marshal ords ?r = Inr data"
      using h validators_marshal_request(1) [OF bag, of ords] by (simp split: sum.splits)
    have it: "iteration (attr_order ords) (req_Attributes ?r)" using h by simp
    have k: "req_Attributes ?r ''ws:joinServer'' = Some (AttrBool True)"
      by (simp add: joinServer_def)
    have x: "WriteAttr (AttrBool True) = Inr ''true''"
      by (simp add: WriteAttr_def WriteBool_def)
    show \<open>\<exists>before after.
         data = ''{"remoteAddr":'' @ WriteString (FetchIP (RemoteAddr r))
           @ '',"protocol":'' @ WriteString (Proto r)
           @ '',"method":'' @ WriteString (Method r)
           @ '',"uri":'' @ WriteString (URI r)
           @ '',"headers":'' @ WriteObject (map (\<lambda>(k, vs). (k, WriteArray (map WriteString vs)))
                (range_map (hdr_order ords) (Header r)))
           @ '',"cookies":{},"rawQuery":''
           @ WriteString (ReplaceAll_byte (ReplaceAll_byte (URL_RawQuery r) CHR 0x0A) CHR 0x0D)
           @ '',"parsed":false,"attributes":{''
           @ Join (before @ [''"ws:joinServer":true''] @ after) '','' @ ''}}''\<close>
      using Marshal_carries_entry [OF _ _ it k x m] by (simp add: member_names)
  }
  {
    assume h: "iteration (attr_order ords) (bag(joinTopics \<mapsto> AttrString (Join topics '',''))) \<and>
      fst (TopicsAccessValidator ords r topics) = Inr data"
    let ?r = "?req (bag(joinTopics \<mapsto> AttrString (Join topics '','')))"
    have m: "Marshal ords ?r = Inr data"
      using h validators_marshal_request(2) [OF bag, of ords topics] by (simp split: sum.splits)
    have it: "iteration (attr_order ords) (req_Attributes ?r)" using h by simp
    have k: "req_Attributes ?r ''ws:joinTopics'' = Some (AttrString (Join topics '',''))"
      by (simp add: joinTopics_def)
    have x: "WriteAttr (AttrString (Join topics '','')) = Inr (WriteString (Join topics '',''))"
      by (simp add: WriteAttr_def)
    show \<open>\<exists>before after.
         data = ''{"remoteAddr":'' @ WriteString (FetchIP (RemoteAddr r))
           @ '',"protocol":'' @ WriteString (Proto r)
           @ '',"method":'' @ WriteString (Method r)
           @ '',"uri":'' @ WriteString (URI r)
           @ '',"headers":'' @ WriteObject (map (\<lambda>(k, vs). (k, WriteArray (map WriteString vs)))
                (range_map (hdr_order ords) (Header r)))
           @ '',"cookies":{},"rawQuery":''
           @ WriteString (ReplaceAll_byte (ReplaceAll_byte (URL_RawQuery r) CHR 0x0A) CHR 0x0D)
           @ '',"parsed":false,"attributes":{''
           @ Join (before @ [''"ws:joinTopics":'' @ WriteString (Join topics '','')] @ after) '',''
           @ ''}}''\<close>
      using Marshal_carries_entry [OF _ _ it k x m] by (simp add: member_names)
  }
  {
    assume ok: "\<forall>k v. bag k = Some v \<longrightarrow> (\<forall>ty. v \<noteq> AttrUnsupported ty)"
    have w: "\<exists>x. WriteAttr v = Inr x" if "\<forall>ty. v \<noteq> AttrUnsupported ty" for v
      using that by (cases v) (simp_all add: WriteAttr_def)
    have a: "\<exists>xs. WriteAttrs (range_map (attr_order ords) (bag(k \<mapsto> v))) = Inr xs"
      if "\<forall>ty. v \<noteq> AttrUnsupported ty" for k v
      by (rule WriteAttrs_supported) (use ok that w in \<open>auto split: if_splits\<close>)
    have "\<exists>d. Marshal ords (?req (bag(k \<mapsto> v))) = Inr d"
      if supported: "\<forall>ty. v \<noteq> AttrUnsupported ty" for k v
    proof -
      obtain xs where "WriteAttrs (range_map (attr_order ords) (bag(k \<mapsto> v))) = Inr xs"
        using a [OF supported] by blast
      then show ?thesis by (simp add: Marshal_def)
    qed
    then have "\<exists>d. Marshal ords (?req (bag(joinServer \<mapsto> AttrBool True))) = Inr d"
      and "\<exists>d. Marshal ords (?req (bag(joinTopics \<mapsto> AttrString (Join topics '','')))) = Inr d"
      by simp_all
    then show "\<exists>d1 d2. fst (ServerAccessValidator ords r) = Inr d1 \<and>
         fst (TopicsAccessValidator ords r topics) = Inr d2"
      using validators_marshal_request(1) [OF bag, of ords]
        validators_marshal_request(2) [OF bag, of ords topics]
      by auto
  }
qed

text \<open>
  The two calls on the sample request with a fresh bag, and the bytes they return.
\<close>

theorem validators_carry_marker_witness:
  \<open>iteration (attr_order (example_orders [''Origin''] [] joinServer)) [joinServer \<mapsto> AttrBool True] \<and>
   fst (ServerAccessValidator (example_orders [''Origin''] [] joinServer)
          (attributes_Init example_request)) =
     Inr ''{"remoteAddr":"10.0.0.7","protocol":"HTTP/1.1","method":"GET","uri":"http://example.org/ws?room=1","headers":{"Origin":["https://example.org"]},"cookies":{},"rawQuery":"room=1","parsed":false,"attributes":{"ws:joinServer":true}}'' \<and>
   iteration (attr_order (example_orders [''Origin''] [] joinTopics))
     [joinTopics \<mapsto> AttrString (Join [''news'', ''chat''] '','')] \<and>
   fst (TopicsAccessValidator (example_orders [''Origin''] [] joinTopics)
          (attributes_Init example_request) [''news'', ''chat'']) =
     Inr ''{"remoteAddr":"10.0.0.7","protocol":"HTTP/1.1","method":"GET","uri":"http://example.org/ws?room=1","headers":{"Origin":["https://example.org"]},"cookies":{},"rawQuery":"room=1","parsed":false,"attributes":{"ws:joinTopics":"news,chat"}}''\<close>
proof -
  let ?o1 = "example_orders [''Origin''] [] joinServer"
  let ?o2 = "example_orders [''Origin''] [] joinTopics"
  have bag: "attrs (attributes_Init example_request) = Some Map.empty"
    by (simp add: attributes_Init_def)
  have ip: "FetchIP ''10.0.0.7:51234'' = ''10.0.0.7''"
    by (simp add: FetchIP_def SplitHostPort_def LastIndexByte_def)
  have it1: "iteration (attr_order ?o1) [joinServer \<mapsto> AttrBool True]"
    by (simp add: iteration_def example_orders_def)
  have it2: "iteration (attr_order ?o2) [joinTopics \<mapsto> AttrString (Join [''news'', ''chat''] '','')]"
    by (simp add: iteration_def example_orders_def)
  have e1: \<open>fst (ServerAccessValidator ?o1 (attributes_Init example_request)) =
     Inr ''{"remoteAddr":"10.0.0.7","protocol":"HTTP/1.1","method":"GET","uri":"http://example.org/ws?room=1","headers":{"Origin":["https://example.org"]},"cookies":{},"rawQuery":"room=1","parsed":false,"attributes":{"ws:joinServer":true}}''\<close>
    by (simp add: ip ServerAccessValidator_def attributes_Set_def attributes_Init_def
        attributes_All_def example_request_def example_orders_def Marshal_def Let_def
        URI_def ReplaceAll_byte_def WriteObject_def WriteArray_def WriteString_def
        WriteAttr_def WriteBool_def escape_byte_def joinServer_def)
  have e2: \<open>fst (TopicsAccessValidator ?o2 (attributes_Init example_request) [''news'', ''chat'']) =
     Inr ''{"remoteAddr":"10.0.0.7","protocol":"HTTP/1.1","method":"GET","uri":"http://example.org/ws?room=1","headers":{"Origin":["https://example.org"]},"cookies":{},"rawQuery":"room=1","parsed":false,"attributes":{"ws:joinTopics":"news,chat"}}''\<close>
    by (simp add: ip TopicsAccessValidator_def attributes_Set_def attributes_Init_def
        attributes_All_def example_request_def example_orders_def Marshal_def Let_def
        URI_def ReplaceAll_byte_def WriteObject_def WriteArray_def WriteString_def
        WriteAttr_def WriteBool_def escape_byte_def joinTopics_def)
  show ?thesis
    using validators_carry_marker [OF bag, of ?o1 _ "[''news'', ''chat'']"]
      validators_carry_marker [OF bag, of ?o2 _ "[''news'', ''chat'']"]
      it1 it2 e1 e2
    by simp
qed




section \<open>The broker reader\<close>

text \<open>
  C7. While \<^verbatim>\<open>Next\<close> returns messages the reader hands each to the fan-out pool, in
  order, and goes on. At the first error it exits: after a \<^verbatim>\<open>TimeOut\<close> error nothing is
  sent on the error channel, after any other error that error, wrapped with the
  operation name, is sent.
\<close>

theorem Serve_reader_behaviour:
  "Serve_reader (map Inr msgs) sv = (Waiting, sv\<lparr>queued := queued sv @ msgs\<rparr>) \<and>
   Serve_reader (map Inr msgs @ Inl err # rest) sv =
     (Exited,
      if Is TimeOut err then sv\<lparr>queued := queued sv @ msgs\<rparr>
      else sv\<lparr>queued := queued sv @ msgs,
              errCh := errCh sv @ [E (Some ''websockets_plugin_serve'') (Some err)]\<rparr>)"
proof (induction msgs arbitrary: sv)
  case Nil
  show ?case by simp
next
  case (Cons m msgs)
  show ?case
    using Cons [of "sv\<lparr>queued := queued sv @ [m]\<rparr>"] by simp
qed


section \<open>The payload pool\<close>

lemma pool_clean_Init: "pool_clean (Init s)"
  by (simp add: pool_clean_def Init_def)

lemma pool_clean_putPld: "pool_clean s \<Longrightarrow> pool_clean (putPld pld s)"
  by (simp add: pool_clean_def putPld_def empty_slot_def)

lemma getPld_clean:
  assumes "pool_clean s"
  shows "empty_slot (fst (getPld pick s))" and "pool_clean (snd (getPld pick s))"
proof -
  have all: "\<forall>p \<in> set (pldPool s). empty_slot p"
    using assms by (simp add: pool_clean_def list_all_iff)
  show "empty_slot (fst (getPld pick s))"
    using all by (simp add: getPld_def New_def empty_slot_def)
  have "set (take pick (pldPool s) @ drop (Suc pick) (pldPool s)) \<subseteq> set (pldPool s)"
    using set_take_subset set_drop_subset by fastforce
  then show "pool_clean (snd (getPld pick s))"
    using all by (auto simp: getPld_def pool_clean_def list_all_iff)
qed

lemma pool_clean_exec: "pool_clean s \<Longrightarrow> pool_clean (snd (exec rt ctx s))"
proof -
  assume c: "pool_clean s"
  obtain pd0 s1 where g: "getPld (pool_pick rt) s = (pd0, s1)" by (cases "getPld (pool_pick rt) s")
  have "pool_clean s1" using getPld_clean(2) [OF c, of "pool_pick rt"] g by simp
  then have "pool_clean (putPld pd (RUnlock (RLock s1)))" for pd
    by (simp add: pool_clean_def putPld_def RLock_def RUnlock_def empty_slot_def)
  then show ?thesis
    by (simp add: exec_def g Let_def split: sum.splits)
qed

lemma pool_clean_validator:
  "pool_clean s \<Longrightarrow> pool_clean (snd (defaultAccessValidator rt r topics s))"
proof -
  assume c: "pool_clean s"
  have l: "pool_clean (do_call (LogDebug ''validation'') s)"
    using c by (simp add: pool_clean_def do_call_def)
  have "pool_clean (snd (exec rt ctx (do_call (LogDebug ''validation'') s)))" for ctx
    using l by (rule pool_clean_exec)
  then have "pool_clean s1" if "exec rt ctx (do_call (LogDebug ''validation'') s) = (res, s1)" for ctx res s1
    using that by (metis snd_conv)
  then show ?thesis
    using l by (auto simp: defaultAccessValidator_def Let_def split: sum.splits prod.splits)
qed

lemma pool_clean_run_op: "pool_clean s \<Longrightarrow> pool_clean (run_op s c)"
  by (cases c) (simp_all add: getPld_clean(2) pool_clean_putPld pool_clean_exec pool_clean_validator)

lemma pool_clean_foldl: "pool_clean s \<Longrightarrow> pool_clean (foldl run_op s cs)"
  by (induction cs arbitrary: s) (simp_all add: pool_clean_run_op)

text \<open>
  C8. \<^verbatim>\<open>putPld\<close> adds to the pool a slot whose two buffers are empty. Hence, after
  \<^verbatim>\<open>Init\<close> and any sequence of \<^verbatim>\<open>getPld\<close>, \<^verbatim>\<open>putPld\<close>, \<^verbatim>\<open>exec\<close> and validator calls, every
  slot in the pool has empty buffers, and so has the slot that the next \<^verbatim>\<open>getPld\<close>
  returns, whether it comes from the pool or is new.
\<close>

theorem pool_slots_are_empty:
  "(\<exists>slot. pldPool (putPld pld s) = slot # pldPool s \<and> empty_slot slot) \<and>
   pool_clean (foldl run_op (Init s) cs) \<and>
   empty_slot (fst (getPld pick (foldl run_op (Init s) cs)))"
  using pool_clean_foldl [OF pool_clean_Init, of s cs]
  by (simp add: getPld_clean(1)) (simp add: putPld_def empty_slot_def)

section \<open>The default access validator\<close>

lemma fresh_bag_marshals:
  "\<exists>ctx. fst (ServerAccessValidator ords (attributes_Init r)) = Inr ctx"
  "\<exists>ctx. fst (TopicsAccessValidator ords (attributes_Init r) topics) = Inr ctx"
proof -
  have a: "\<exists>xs. WriteAttrs (range_map ks [k \<mapsto> AttrBool b]) = Inr xs" for ks k b
    by (rule WriteAttrs_supported) (auto simp: WriteAttr_def split: if_splits)
  have b: "\<exists>xs. WriteAttrs (range_map ks [k \<mapsto> AttrString t]) = Inr xs" for ks k t
    by (rule WriteAttrs_supported) (auto simp: WriteAttr_def split: if_splits)
  show "\<exists>ctx. fst (ServerAccessValidator ords (attributes_Init r)) = Inr ctx"
    using a [of "attr_order ords" "''ws:joinServer''" True]
    by (auto simp: ServerAccessValidator_def attributes_Init_def attributes_Set_def
        attributes_All_def Marshal_def Let_def split: sum.splits)
  show "\<exists>ctx. fst (TopicsAccessValidator ords (attributes_Init r) topics) = Inr ctx"
    using b [of "attr_order ords" "''ws:joinTopics''" "Join topics '',''"]
    by (auto simp: TopicsAccessValidator_def attributes_Init_def attributes_Set_def
        attributes_All_def Marshal_def Let_def split: sum.splits)
qed

text \<open>
  C10. Given the bytes \<open>ctx\<close> that the validator marshalled and the slot \<open>pd\<close> it sends,
  the validator's result follows the worker's answer. When the call to the worker or the
  decoding of its answer fails, the result is nil with an error, in both modes. When the
  answer is decoded, it is returned; with a status other than 200 it comes with an error
  in topic mode and with a nil error in server mode.
\<close>

theorem defaultAccessValidator_denial:
  assumes marshal: "fst (if topics = []
                  then ServerAccessValidator (map_orders rt) (attributes_Init r)
                  else TopicsAccessValidator (map_orders rt) (attributes_Init r) topics) = Inr ctx"
    and slot: "pd = (fst (getPld (pool_pick rt) (do_call (LogDebug ''validation'') s)))
                  \<lparr>pld_Context := ctx\<rparr>"
  shows "fst (defaultAccessValidator rt r topics s) =
    (case phpPool_Exec rt pd of
       Inl err \<Rightarrow>
         (None, Some (if topics = [] then E None (Some (E (Some ''exec'') (Some err)))
                      else E (Some ''access_validator'') None))
     | Inr rsp \<Rightarrow>
         (case Unmarshal rt (pld_Context rsp)
                 \<lparr>av_Header = Map.empty, av_Status = 0, av_Body = pld_Body rsp\<rparr> of
            Inl err \<Rightarrow>
              (None, Some (if topics = [] then E None (Some (E (Some ''exec'') (Some err)))
                           else E (Some ''access_validator'') None))
          | Inr val \<Rightarrow>
              (Some val,
               if topics \<noteq> [] \<and> av_Status val \<noteq> 200
               then Some (E (Some ''access_validator'')
                      (Some (Str (''access forbidden, code: '' @ Itoa (av_Status val)))))
               else None)))"
proof -
  let ?s0 = "do_call (LogDebug ''validation'') s"
  obtain pd0 s1 where g: "getPld (pool_pick rt) ?s0 = (pd0, s1)"
    by (cases "getPld (pool_pick rt) ?s0")
  have pd: "pd = pd0\<lparr>pld_Context := ctx\<rparr>"
    using slot g by simp
  have x: "fst (exec rt ctx ?s0) =
      (case phpPool_Exec rt pd of
         Inl err \<Rightarrow> Inl (E (Some ''exec'') (Some err))
       | Inr rsp \<Rightarrow>
           (case Unmarshal rt (pld_Context rsp)
                   \<lparr>av_Header = Map.empty, av_Status = 0, av_Body = pld_Body rsp\<rparr> of
              Inl err \<Rightarrow> Inl (E (Some ''exec'') (Some err))
            | Inr val \<Rightarrow> Inr val))"
    by (simp add: exec_def g pd Let_def split: sum.splits)
  obtain res s2 where e: "exec rt ctx ?s0 = (res, s2)"
    by (cases "exec rt ctx ?s0")
  show ?thesis
  proof (cases "topics = []")
    case True
    then show ?thesis
      using marshal x e
      by (simp add: defaultAccessValidator_def Let_def split: sum.splits)
  next
    case False
    then show ?thesis
      using marshal x e
      by (simp add: defaultAccessValidator_def Let_def split: sum.splits)
  qed
qed



lemma Itoa_403: "Itoa 403 = ''403''"
  by (simp add: Itoa_def digits.simps)

theorem defaultAccessValidator_denial_witness:
  "fst (defaultAccessValidator (example_runtime joinTopics (Inr example_reply))
          example_request [''news''] example_state) =
     (Some \<lparr>av_Header = Map.empty, av_Status = 403, av_Body = ''denied''\<rparr>,
      Some (E (Some ''access_validator'') (Some (Str ''access forbidden, code: 403'')))) \<and>
   fst (defaultAccessValidator (example_runtime joinServer (Inr example_reply))
          example_request [] example_state) =
     (Some \<lparr>av_Header = Map.empty, av_Status = 403, av_Body = ''denied''\<rparr>, None) \<and>
   fst (defaultAccessValidator (example_runtime joinTopics (Inl (Str ''worker unavailable'')))
          example_request [''news''] example_state) =
     (None, Some (E (Some ''access_validator'') None)) \<and>
   fst (defaultAccessValidator (example_runtime joinServer (Inl (Str ''worker unavailable'')))
          example_request [] example_state) =
     (None, Some (E None (Some (E (Some ''exec'') (Some (Str ''worker unavailable''))))))"
proof -
  obtain c1 where c1: "fst (TopicsAccessValidator (example_orders [''Origin''] [] joinTopics)
      (attributes_Init example_request) [''news'']) = Inr c1"
    using fresh_bag_marshals(2) by blast
  obtain c2 where c2: "fst (ServerAccessValidator (example_orders [''Origin''] [] joinServer)
      (attributes_Init example_request)) = Inr c2"
    using fresh_bag_marshals(1) by blast
  have m1: "fst (if [''news''] = []
        then ServerAccessValidator (map_orders (example_runtime joinTopics a)) (attributes_Init example_request)
        else TopicsAccessValidator (map_orders (example_runtime joinTopics a)) (attributes_Init example_request) [''news'']) = Inr c1" for a
    using c1 by (simp add: example_runtime_def)
  have m2: "fst (if ([] :: string list) = []
        then ServerAccessValidator (map_orders (example_runtime joinServer a)) (attributes_Init example_request)
        else TopicsAccessValidator (map_orders (example_runtime joinServer a)) (attributes_Init example_request) []) = Inr c2" for a
    using c2 by (simp add: example_runtime_def)
  show ?thesis
    using defaultAccessValidator_denial [OF m1 refl, of "Inr example_reply" example_state]
      defaultAccessValidator_denial [OF m2 refl, of "Inr example_reply" example_state]
      defaultAccessValidator_denial [OF m1 refl, of "Inl (Str ''worker unavailable'')" example_state]
      defaultAccessValidator_denial [OF m2 refl, of "Inl (Str ''worker unavailable'')" example_state]
    by (simp add: example_runtime_def example_reply_def Itoa_403)
qed

end
